theory Spec2Isabelle
  imports Main "HOL-Library.Word"
begin

section \<open>The IOManager of iomgr.hpp\<close>

text \<open>
  A shallow embedding of \<^verbatim>\<open>class IOManager\<close> (src/include/iomgr.hpp), the one source
  file. Member functions whose bodies the header gives are translated line by line. A
  member function that the header only declares and that a translated function calls
  (\<^verbatim>\<open>send_msg\<close>, \<^verbatim>\<open>multicast_msg\<close>, \<^verbatim>\<open>this_reactor\<close>, ...) is an argument of its caller, so
  that a statement about the caller holds for whatever the callee does. Where a property
  is about a declared-only function itself (\<^verbatim>\<open>register_msg_module\<close>, \<^verbatim>\<open>start\<close>, \<^verbatim>\<open>stop\<close>,
  the dispatch of a message on the receiving reactor), the function is modelled from the
  spec, and the text before it says so.
\<close>

subsection \<open>Data\<close>

text \<open>\<^verbatim>\<open>ENUM(iomgr_state, uint16_t, stopped, interface_init, reactor_init, sys_init, running, stopping)\<close>\<close>

datatype iomgr_state = stopped | interface_init | reactor_init | sys_init | running | stopping


text \<open>
  The types of the messages are declared in iomgr_msg.hpp, which is not among the sources;
  the header uses them by name only.
\<close>

text \<open>
  Modelled from the spec: \<^verbatim>\<open>msg_module_id_t\<close> (iomgr_msg.hpp), a small integer handle; the
  header counts the registered modules in a \<^verbatim>\<open>uint32_t\<close>.
\<close>

type_synonym msg_module_id_t = "32 word"

text \<open>
  Modelled from the spec: \<^verbatim>\<open>iomgr_msg_type\<close> (iomgr_msg.hpp), \<open>RUN_METHOD\<close> plus the
  interface-defined types.
\<close>

datatype iomgr_msg_type = RUN_METHOD | INTERFACE_DEFINED nat

text \<open>
  Modelled from the spec: \<^verbatim>\<open>iomgr_msg\<close> (iomgr_msg.hpp), a message \<open>{type, module
  identifier, payload}\<close>; the payload of a \<open>RUN_METHOD\<close> message is the callable.
\<close>

record 'f iomgr_msg =
  m_type :: iomgr_msg_type
  m_dest_module :: msg_module_id_t
  m_method :: 'f

text \<open>
  Modelled from the spec: \<^verbatim>\<open>sync_iomgr_msg\<close> (iomgr_msg.hpp), the synchronous variant, which
  additionally carries a completion signal.
\<close>

record 'f sync_iomgr_msg = "'f iomgr_msg" +
  m_completed :: bool

text \<open>
  Modelled from the spec: \<^verbatim>\<open>iomgr_msg::create(type, module, fn)\<close> (iomgr_msg.hpp), which makes
  the message of its three arguments.
\<close>

definition iomgr_msg_create :: "iomgr_msg_type \<Rightarrow> msg_module_id_t \<Rightarrow> 'f \<Rightarrow> 'f iomgr_msg" where
  "iomgr_msg_create t module fn = \<lparr>m_type = t, m_dest_module = module, m_method = fn\<rparr>"

text \<open>
  Modelled from the spec: the constructor \<^verbatim>\<open>sync_iomgr_msg(type, module, fn)\<close> (iomgr_msg.hpp),
  the same for a synchronous message, not yet completed.
\<close>

definition sync_iomgr_msg_ctor :: "iomgr_msg_type \<Rightarrow> msg_module_id_t \<Rightarrow> 'f \<Rightarrow> 'f sync_iomgr_msg" where
  "sync_iomgr_msg_ctor t module fn =
     \<lparr>m_type = t, m_dest_module = module, m_method = fn, m_completed = False\<rparr>"

text \<open>
  The members of \<^verbatim>\<open>IOManager\<close> that the functions below read or write (lines 232 to 263).
  \<^verbatim>\<open>msg_handler_t\<close> is a \<^verbatim>\<open>std::function\<close>: a slot of \<open>m_msg_handlers\<close> is empty (\<open>None\<close>)
  or holds a handler. \<open>m_cv\<close> stands for the condition variable: it counts the
  \<^verbatim>\<open>notify_all\<close> broadcasts made on it, which is all a waiting thread can tell of it.
\<close>

record 'h IOManager =
  m_state :: iomgr_state
  m_cv :: nat
  m_msg_handlers :: "'h option list"
  m_msg_handlers_count :: "32 word"
  m_internal_msg_module_id :: msg_module_id_t

text \<open>\<^verbatim>\<open>static constexpr uint32_t max_msg_modules = 64;\<close>\<close>

definition max_msg_modules :: "32 word" where
  "max_msg_modules = 64"

subsection \<open>Pointers\<close>

text \<open>
  A pointer is \<open>None\<close> (\<^verbatim>\<open>nullptr\<close>) or \<open>Some\<close> object. Calling a member function through a
  null pointer is a fault, and so is indexing a \<^verbatim>\<open>std::array\<close> past its end;
  \<^verbatim>\<open>r && e\<close> evaluates \<open>e\<close> only when \<open>r\<close> is not null.
\<close>

datatype fault = NullDereference | OutOfBounds

definition call_through :: "'a option \<Rightarrow> ('a \<Rightarrow> 'b) \<Rightarrow> fault + 'b" where
  "call_through p f = (case p of None \<Rightarrow> Inl NullDereference | Some x \<Rightarrow> Inr (f x))"

definition ptr_and :: "'a option \<Rightarrow> (fault + bool) \<Rightarrow> fault + bool" where
  "ptr_and p e = (if p \<noteq> None then e else Inr False)"

subsection \<open>Access related methods\<close>

text \<open>
  \<^verbatim>\<open>bool am_i_io_reactor() const { auto r = this_reactor(); return r && r->is_io_reactor(); }\<close>
  and its two siblings, lines 127 to 140. \<^verbatim>\<open>this_reactor()\<close> is declared only: its result on
  the calling thread is the argument \<open>r\<close>, a pointer to a reactor. \<^verbatim>\<open>class IOReactor\<close> is
  declared in reactor.hpp, which is not among the sources: a reactor is a value of any type
  \<open>'reactor\<close>, and the member function asked of it is the first argument.
\<close>

definition am_i_io_reactor :: "('reactor \<Rightarrow> bool) \<Rightarrow> 'reactor option \<Rightarrow> fault + bool" where
  "am_i_io_reactor is_io_reactor r = ptr_and r (call_through r is_io_reactor)"

definition am_i_tight_loop_reactor :: "('reactor \<Rightarrow> bool) \<Rightarrow> 'reactor option \<Rightarrow> fault + bool" where
  "am_i_tight_loop_reactor is_tight_loop_reactor r = ptr_and r (call_through r is_tight_loop_reactor)"

definition am_i_worker_reactor :: "('reactor \<Rightarrow> bool) \<Rightarrow> 'reactor option \<Rightarrow> fault + bool" where
  "am_i_worker_reactor is_worker r = ptr_and r (call_through r is_worker)"

subsection \<open>run_on\<close>

text \<open>
  \<^verbatim>\<open>(int)sent\<close>: the conversion of a \<^verbatim>\<open>bool\<close> to \<^verbatim>\<open>int\<close>.
\<close>

definition int_of_bool :: "bool \<Rightarrow> int" where
  "int_of_bool b = (if b then 1 else 0)"

text \<open>
  \<^verbatim>\<open>int run_on(const io_thread_t& thread, const auto& fn, bool wait_for_completion = false)\<close>,
  lines 110 to 119. \<^verbatim>\<open>send_msg\<close> and \<^verbatim>\<open>send_msg_and_wait\<close> are declared only: they are the
  first two arguments, each a function of the thread handle, the message and the state \<open>'s\<close> of
  the reactors, to the \<^verbatim>\<open>bool\<close> returned and the new state.
\<close>

definition run_on_thread ::
  "('t \<Rightarrow> 'f iomgr_msg \<Rightarrow> 's \<Rightarrow> bool \<times> 's) \<Rightarrow> ('t \<Rightarrow> 'f sync_iomgr_msg \<Rightarrow> 's \<Rightarrow> bool \<times> 's) \<Rightarrow>
   'h IOManager \<Rightarrow> 't \<Rightarrow> 'f \<Rightarrow> bool \<Rightarrow> 's \<Rightarrow> int \<times> 's" where
  "run_on_thread send_msg send_msg_and_wait mgr thread fn wait_for_completion s =
     (let (sent, s') =
        (if wait_for_completion then
           (let smsg = sync_iomgr_msg_ctor RUN_METHOD (m_internal_msg_module_id mgr) fn
            in send_msg_and_wait thread smsg s)
         else send_msg thread (iomgr_msg_create RUN_METHOD (m_internal_msg_module_id mgr) fn) s)
      in (int_of_bool sent, s'))"


subsection \<open>State machine related operations\<close>

text \<open>
  The manager as its member initialisers leave it: \<^verbatim>\<open>m_state = iomgr_state::stopped\<close> (line
  234), \<^verbatim>\<open>m_msg_handlers_count = 0\<close> (line 260), an array of 64 empty handlers, and no
  broadcast made yet. \<^verbatim>\<open>m_internal_msg_module_id\<close> has no initialiser: its value is the
  argument.
\<close>

definition IOManager_initial :: "msg_module_id_t \<Rightarrow> 'h IOManager" where
  "IOManager_initial internal_id =
     \<lparr>m_state = stopped, m_cv = 0, m_msg_handlers = replicate (unat max_msg_modules) None,
      m_msg_handlers_count = 0, m_internal_msg_module_id = internal_id\<rparr>"

text \<open>
  \<^verbatim>\<open>void set_state(iomgr_state state) { m_state.store(state, std::memory_order_release); }\<close>
  \<^verbatim>\<open>iomgr_state get_state() const { return m_state.load(std::memory_order_acquire); }\<close>
  \<^verbatim>\<open>void set_state_and_notify(iomgr_state state) { set_state(state); m_cv.notify_all(); }\<close>
\<close>

definition set_state :: "'h IOManager \<Rightarrow> iomgr_state \<Rightarrow> 'h IOManager" where
  "set_state mgr state = mgr\<lparr>m_state := state\<rparr>"

definition get_state :: "'h IOManager \<Rightarrow> iomgr_state" where
  "get_state mgr = m_state mgr"

definition notify_all :: "'h IOManager \<Rightarrow> 'h IOManager" where
  "notify_all mgr = mgr\<lparr>m_cv := m_cv mgr + 1\<rparr>"

definition set_state_and_notify :: "'h IOManager \<Rightarrow> iomgr_state \<Rightarrow> 'h IOManager" where
  "set_state_and_notify mgr state = notify_all (set_state mgr state)"

text \<open>
  A call that waits on \<open>m_cv\<close> is a function of the manager at the call and of what happens
  while the caller is inside it, in the order in which it happens: a call of
  \<^verbatim>\<open>set_state_and_notify\<close> by another thread (the one function of the header that writes the
  state and is called in it), a spurious wake-up, which \<^verbatim>\<open>std::condition_variable::wait\<close>
  allows, or the next step of the waiting thread itself. \<^verbatim>\<open>set_state_and_notify\<close> takes no
  lock, so a call of it can fall anywhere between two steps of the waiting thread. Its store
  and its broadcast are one event: a step of the waiting thread between the two has the
  outcome of one before the call, of one after it, or of a spurious wake-up.
\<close>

datatype sched_event = Set_state_and_notify iomgr_state | Spurious_wakeup | Waiter_runs

fun other_step :: "sched_event \<Rightarrow> 'h IOManager \<Rightarrow> 'h IOManager" where
  "other_step (Set_state_and_notify s) mgr = set_state_and_notify mgr s"
| "other_step Spurious_wakeup mgr = mgr"
| "other_step Waiter_runs mgr = mgr"

text \<open>A sleeping thread wakes up when a broadcast has been made on \<open>m_cv\<close>, or spuriously.\<close>

definition wakes :: "sched_event \<Rightarrow> 'h IOManager \<Rightarrow> bool" where
  "wakes e mgr = (e = Spurious_wakeup \<or> m_cv (other_step e mgr) \<noteq> m_cv mgr)"

text \<open>
  The call has returned, with the manager as it was then and the events that come after
  the return; or it has not, and the caller is asleep with nothing more to come.
\<close>

datatype 'h wait_result = Returned "'h IOManager" "sched_event list" | Blocked "'h IOManager"

text \<open>
  \<^verbatim>\<open>m_cv.wait(lck, pred)\<close> is \<^verbatim>\<open>while (!pred()) wait(lck);\<close>. Between two steps the waiting
  thread is in one of three places: it has found the predicate false and is about to call
  \<^verbatim>\<open>wait(lck)\<close>; it is asleep in \<^verbatim>\<open>wait(lck)\<close>; or it has been woken and is about to evaluate
  the predicate again.
\<close>

datatype waiter = About_to_sleep | Asleep | Woken

text \<open>
  The loop of \<^verbatim>\<open>m_cv.wait(lck, pred)\<close> from one of these places on. A broadcast wakes only
  a thread that is asleep; a thread that is not asleep yet does not hear it. A woken thread
  evaluates the predicate on the manager as it is at that step, not as it was at the
  broadcast. When the events end, a woken thread still takes its step.
\<close>

fun cv_loop ::
  "('h IOManager \<Rightarrow> bool) \<Rightarrow> waiter \<Rightarrow> 'h IOManager \<Rightarrow> sched_event list \<Rightarrow> 'h wait_result" where
  "cv_loop pred Woken mgr [] = (if pred mgr then Returned mgr [] else Blocked mgr)"
| "cv_loop pred w mgr [] = Blocked mgr"
| "cv_loop pred About_to_sleep mgr (Waiter_runs # es) = cv_loop pred Asleep mgr es"
| "cv_loop pred About_to_sleep mgr (e # es) = cv_loop pred About_to_sleep (other_step e mgr) es"
| "cv_loop pred Asleep mgr (e # es) =
     (if wakes e mgr then cv_loop pred Woken (other_step e mgr) es
      else cv_loop pred Asleep (other_step e mgr) es)"
| "cv_loop pred Woken mgr (Waiter_runs # es) =
     (if pred mgr then Returned mgr es else cv_loop pred About_to_sleep mgr es)"
| "cv_loop pred Woken mgr (e # es) = cv_loop pred Woken (other_step e mgr) es"

text \<open>
  \<^verbatim>\<open>m_cv.wait(lck, pred)\<close> entered: the predicate is evaluated first, on the manager as it
  is at the call.
\<close>

definition cv_wait ::
  "('h IOManager \<Rightarrow> bool) \<Rightarrow> 'h IOManager \<Rightarrow> sched_event list \<Rightarrow> 'h wait_result" where
  "cv_wait pred mgr cs = (if pred mgr then Returned mgr cs else cv_loop pred About_to_sleep mgr cs)"

text \<open>
  \<^verbatim>\<open>void wait_to_be_ready()\<close>, \<^verbatim>\<open>void wait_to_be_stopped()\<close> and
  \<^verbatim>\<open>void wait_for_state(iomgr_state expected_state)\<close>, lines 145 to 167. Each takes the
  lock on \<open>m_cv_mtx\<close> first; no function of the header that writes the state takes it, so
  the lock keeps no store and no broadcast out, and has no counterpart here. The test of
  line 152 or 164 and the first evaluation of the predicate are taken at the same moment,
  the call: a store between the two has the outcome of one just before the call.
\<close>

definition wait_to_be_ready :: "'h IOManager \<Rightarrow> sched_event list \<Rightarrow> 'h wait_result" where
  "wait_to_be_ready mgr cs = cv_wait (\<lambda>m. get_state m = running) mgr cs"

definition wait_to_be_stopped :: "'h IOManager \<Rightarrow> sched_event list \<Rightarrow> 'h wait_result" where
  "wait_to_be_stopped mgr cs =
     (if get_state mgr \<noteq> stopped then cv_wait (\<lambda>m. get_state m = stopped) mgr cs
      else Returned mgr cs)"

definition wait_for_state :: "'h IOManager \<Rightarrow> iomgr_state \<Rightarrow> sched_event list \<Rightarrow> 'h wait_result" where
  "wait_for_state mgr expected_state cs =
     (if get_state mgr \<noteq> expected_state then cv_wait (\<lambda>m. get_state m = expected_state) mgr cs
      else Returned mgr cs)"

text \<open>
  \<^verbatim>\<open>void ensure_running()\<close>, lines 169 to 175. The first component of the result is what the
  call has logged with \<^verbatim>\<open>LOGINFO\<close>.
\<close>

definition ensure_running :: "'h IOManager \<Rightarrow> sched_event list \<Rightarrow> string list \<times> 'h wait_result" where
  "ensure_running mgr cs =
     (if get_state mgr \<noteq> running then
        (let log = [''IOManager is not running, will wait for it to be ready''] in
         case wait_to_be_ready mgr cs of
           Returned mgr' cs' \<Rightarrow> (log @ [''IOManager is ready now''], Returned mgr' cs')
         | Blocked mgr' \<Rightarrow> (log, Blocked mgr'))
      else ([], Returned mgr cs))"

subsection \<open>Message modules\<close>

text \<open>
  \<^verbatim>\<open>register_msg_module\<close> and \<^verbatim>\<open>get_msg_module\<close> are declared at lines 187 and 188 and
  defined in iomgr.cpp, which is not among the sources. The table and its fill count are
  the members \<open>m_msg_handlers\<close> and \<open>m_msg_handlers_count\<close> of the header.
\<close>

text \<open>
  Modelled from the spec: the failure of \<^verbatim>\<open>register_msg_module\<close>, which the spec leaves as
  an invalid handle or a raise.
\<close>

datatype register_error = Msg_modules_exhausted

text \<open>
  Modelled from the spec: \<^verbatim>\<open>register_msg_module(handler)\<close> (iomgr.cpp) installs a handler in
  the next free slot (0..63), and fails once the 64-slot table is exhausted.
\<close>

definition register_msg_module ::
  "'h IOManager \<Rightarrow> 'h \<Rightarrow> (register_error + msg_module_id_t) \<times> 'h IOManager" where
  "register_msg_module mgr handler =
     (if m_msg_handlers_count mgr < max_msg_modules then
        (Inr (m_msg_handlers_count mgr),
         mgr\<lparr>m_msg_handlers := (m_msg_handlers mgr)[unat (m_msg_handlers_count mgr) := Some handler],
             m_msg_handlers_count := m_msg_handlers_count mgr + 1\<rparr>)
      else (Inl Msg_modules_exhausted, mgr))"

text \<open>
  Modelled from the spec: \<^verbatim>\<open>get_msg_module(id)\<close> (iomgr.cpp); a module id maps to exactly one
  handler, which the receiving reactor looks up by the id of the message.
\<close>

definition get_msg_module :: "'h IOManager \<Rightarrow> msg_module_id_t \<Rightarrow> fault + 'h option" where
  "get_msg_module mgr mid =
     (if mid < max_msg_modules then Inr (m_msg_handlers mgr ! unat mid) else Inl OutOfBounds)"

text \<open>A sequence of registrations, one per handler of the list, with the result of each.\<close>

fun register_all ::
  "'h IOManager \<Rightarrow> 'h list \<Rightarrow> (register_error + msg_module_id_t) list \<times> 'h IOManager" where
  "register_all mgr [] = ([], mgr)"
| "register_all mgr (h # hs) =
     (let (r, mgr') = register_msg_module mgr h;
          (rs, mgr'') = register_all mgr' hs
      in (r # rs, mgr''))"




subsection \<open>Start and stop\<close>









section \<open>Properties\<close>

subsection \<open>The calling thread's reactor\<close>

text \<open>
  C9. On a thread that is attached to no reactor (\<^verbatim>\<open>this_reactor()\<close> is null),
  \<^verbatim>\<open>am_i_io_reactor\<close>, \<^verbatim>\<open>am_i_tight_loop_reactor\<close> and \<^verbatim>\<open>am_i_worker_reactor\<close> each return
  false and do not fault: the null test comes before the question to the reactor, which
  asked of a null pointer would be a fault. On a reactor thread each returns the reactor's
  answer.
\<close>

theorem am_i_reactor_null_guard:
  "am_i_io_reactor is_io_reactor None = Inr False \<and>
   am_i_tight_loop_reactor is_tight_loop_reactor None = Inr False \<and>
   am_i_worker_reactor is_worker None = Inr False \<and>
   am_i_io_reactor is_io_reactor (Some x) = Inr (is_io_reactor x) \<and>
   am_i_tight_loop_reactor is_tight_loop_reactor (Some x) = Inr (is_tight_loop_reactor x) \<and>
   am_i_worker_reactor is_worker (Some x) = Inr (is_worker x) \<and>
   am_i_io_reactor is_io_reactor r \<noteq> Inl NullDereference \<and>
   am_i_tight_loop_reactor is_tight_loop_reactor r \<noteq> Inl NullDereference \<and>
   am_i_worker_reactor is_worker r \<noteq> Inl NullDereference \<and>
   call_through None is_io_reactor = Inl NullDereference"
  by (cases r)
     (simp_all add: am_i_io_reactor_def am_i_tight_loop_reactor_def am_i_worker_reactor_def
        ptr_and_def call_through_def)

text \<open>
  An instance: a reactor is the triple of its three answers; the calling thread is on no
  reactor, or on a worker reactor that does io and does not spin.
\<close>

theorem am_i_reactor_null_guard_witness:
  "am_i_io_reactor fst (None :: (bool \<times> bool \<times> bool) option) = Inr False \<and>
   am_i_tight_loop_reactor (fst \<circ> snd) (None :: (bool \<times> bool \<times> bool) option) = Inr False \<and>
   am_i_worker_reactor (snd \<circ> snd) (None :: (bool \<times> bool \<times> bool) option) = Inr False \<and>
   am_i_io_reactor fst (Some (True, False, True)) = Inr True \<and>
   am_i_tight_loop_reactor (fst \<circ> snd) (Some (True, False, True)) = Inr False \<and>
   am_i_worker_reactor (snd \<circ> snd) (Some (True, False, True)) = Inr True"
  using am_i_reactor_null_guard
    [of "fst :: bool \<times> bool \<times> bool \<Rightarrow> bool" "fst \<circ> snd" "snd \<circ> snd" "(True, False, True)" None]
  by simp

subsection \<open>run_on\<close>

text \<open>
  C10. \<^verbatim>\<open>run_on(thread, fn, wait_for_completion)\<close> for one \<^verbatim>\<open>io_thread_t\<close> returns 0 or 1,
  whatever \<open>fn\<close> is and whatever \<^verbatim>\<open>send_msg\<close> and \<^verbatim>\<open>send_msg_and_wait\<close> do: the result is
  the \<^verbatim>\<open>bool\<close> that \<^verbatim>\<open>send_msg_and_wait\<close> (when waiting) or \<^verbatim>\<open>send_msg\<close> (when not) returns
  for the \<open>RUN_METHOD\<close> message, converted to \<^verbatim>\<open>int\<close>, so it is 1 exactly when that call
  reported the message delivered.
\<close>

theorem run_on_thread_zero_or_one:
  "fst (run_on_thread send_msg send_msg_and_wait mgr thread fn w s) \<in> {0, 1} \<and>
   run_on_thread send_msg send_msg_and_wait mgr thread fn True s =
     (int_of_bool (fst (send_msg_and_wait thread
         (sync_iomgr_msg_ctor RUN_METHOD (m_internal_msg_module_id mgr) fn) s)),
      snd (send_msg_and_wait thread
         (sync_iomgr_msg_ctor RUN_METHOD (m_internal_msg_module_id mgr) fn) s)) \<and>
   run_on_thread send_msg send_msg_and_wait mgr thread fn False s =
     (int_of_bool (fst (send_msg thread
         (iomgr_msg_create RUN_METHOD (m_internal_msg_module_id mgr) fn) s)),
      snd (send_msg thread (iomgr_msg_create RUN_METHOD (m_internal_msg_module_id mgr) fn) s)) \<and>
   (fst (run_on_thread send_msg send_msg_and_wait mgr thread fn True s) = 1 \<longleftrightarrow>
      fst (send_msg_and_wait thread
         (sync_iomgr_msg_ctor RUN_METHOD (m_internal_msg_module_id mgr) fn) s)) \<and>
   (fst (run_on_thread send_msg send_msg_and_wait mgr thread fn False s) = 1 \<longleftrightarrow>
      fst (send_msg thread (iomgr_msg_create RUN_METHOD (m_internal_msg_module_id mgr) fn) s))"
  by (simp add: run_on_thread_def int_of_bool_def Let_def split: prod.splits)

text \<open>
  An instance: the reactors' state is the list of the live threads, and a send succeeds when
  the thread is among them.
\<close>

theorem run_on_thread_zero_or_one_witness:
  "run_on_thread (\<lambda>t m s. (t \<in> set s, s)) (\<lambda>t m s. (t \<in> set s, s))
      (IOManager_initial 7 :: nat IOManager) (2 :: nat) ''fn'' False [1, 2, 3] = (1, [1, 2, 3]) \<and>
   run_on_thread (\<lambda>t m s. (t \<in> set s, s)) (\<lambda>t m s. (t \<in> set s, s))
      (IOManager_initial 7 :: nat IOManager) (5 :: nat) ''fn'' True [1, 2, 3] = (0, [1, 2, 3])"
  using run_on_thread_zero_or_one [of "\<lambda>t m s. (t \<in> set s, s)" "\<lambda>t m s. (t \<in> set s, s)"
      "IOManager_initial 7 :: nat IOManager" "2 :: nat" "''fn''" False "[1, 2, 3]"]
    run_on_thread_zero_or_one [of "\<lambda>t m s. (t \<in> set s, s)" "\<lambda>t m s. (t \<in> set s, s)"
      "IOManager_initial 7 :: nat IOManager" "5 :: nat" "''fn''" True "[1, 2, 3]"]
  by (simp add: int_of_bool_def)

subsection \<open>Waiting for a state\<close>

lemma get_state_set_state:
  "get_state (set_state mgr s) = s" "get_state (set_state_and_notify mgr s) = s"
  by (simp_all add: get_state_def set_state_def set_state_and_notify_def notify_all_def)

lemma wakes_simps:
  "wakes (Set_state_and_notify s) mgr = True"
  "wakes Spurious_wakeup mgr = True"
  "wakes Waiter_runs mgr = False"
  by (simp_all add: wakes_def set_state_def set_state_and_notify_def notify_all_def)

lemma cv_loop_returned:
  "cv_loop pred w mgr es = Returned mgr' rest \<Longrightarrow> pred mgr'"
  by (induction pred w mgr es rule: cv_loop.induct) (auto split: if_splits)

lemma wait_to_be_ready_eq: "wait_to_be_ready mgr cs = wait_for_state mgr running cs"
  by (simp add: wait_to_be_ready_def wait_for_state_def cv_wait_def)

lemma wait_for_state_returned:
  "wait_for_state mgr s cs = Returned mgr' rest \<Longrightarrow> get_state mgr' = s"
  by (auto simp: wait_for_state_def cv_wait_def split: if_splits dest: cv_loop_returned)

text \<open>
  C3, at the run where the code departs from it. The state is \<open>reactor_init\<close> and a thread
  calls \<^verbatim>\<open>wait_for_state(sys_init)\<close>: it finds the state different and the predicate false.
  Before it is asleep another thread calls \<^verbatim>\<open>set_state_and_notify(sys_init)\<close>, which takes
  no \<open>m_cv_mtx\<close>: the broadcast finds nobody asleep. Then the thread goes to sleep, and it
  stays asleep although the state is \<open>sys_init\<close>. Had the same call come once the thread
  was asleep, the thread would have returned. A thread that is woken by the broadcast of
  \<open>sys_init\<close> and takes its step only after the next store, of \<open>running\<close>, goes back to
  sleep as well.
\<close>

theorem wait_for_state_lost_wakeup:
  "get_state (set_state (IOManager_initial 0 :: nat IOManager) reactor_init) = reactor_init \<and>
   wait_for_state (set_state (IOManager_initial 0 :: nat IOManager) reactor_init) sys_init
     [Set_state_and_notify sys_init, Waiter_runs] =
     Blocked (set_state_and_notify (set_state (IOManager_initial 0) reactor_init) sys_init) \<and>
   get_state (set_state_and_notify (set_state (IOManager_initial 0 :: nat IOManager) reactor_init)
     sys_init) = sys_init \<and>
   wait_for_state (set_state (IOManager_initial 0 :: nat IOManager) reactor_init) sys_init
     [Waiter_runs, Set_state_and_notify sys_init, Waiter_runs] =
     Returned (set_state_and_notify (set_state (IOManager_initial 0) reactor_init) sys_init) [] \<and>
   wait_for_state (set_state (IOManager_initial 0 :: nat IOManager) reactor_init) sys_init
     [Waiter_runs, Set_state_and_notify sys_init, Set_state_and_notify running, Waiter_runs] =
     Blocked (set_state_and_notify (set_state_and_notify
       (set_state (IOManager_initial 0) reactor_init) sys_init) running)"
  by (simp add: wait_for_state_def cv_wait_def wakes_simps get_state_set_state)

text \<open>
  C8. \<^verbatim>\<open>ensure_running\<close> returns at once, having logged nothing, when the state is
  \<open>running\<close>; otherwise it logs and calls \<^verbatim>\<open>wait_to_be_ready\<close>, and logs again when that
  returns. In every case it returns when, and with the manager with which,
  \<^verbatim>\<open>wait_to_be_ready\<close> returns, and then the state is \<open>running\<close>.
\<close>

theorem ensure_running_wraps_wait_to_be_ready:
  "(get_state mgr = running \<longrightarrow> ensure_running mgr cs = ([], Returned mgr cs)) \<and>
   snd (ensure_running mgr cs) = wait_to_be_ready mgr cs \<and>
   (get_state mgr \<noteq> running \<longrightarrow>
      fst (ensure_running mgr cs) =
        (case wait_to_be_ready mgr cs of
           Returned mgr' rest \<Rightarrow>
             [''IOManager is not running, will wait for it to be ready'', ''IOManager is ready now'']
         | Blocked mgr' \<Rightarrow> [''IOManager is not running, will wait for it to be ready''])) \<and>
   (\<forall>mgr' rest. snd (ensure_running mgr cs) = Returned mgr' rest \<longrightarrow> get_state mgr' = running)"
proof -
  have 1: "snd (ensure_running mgr cs) = wait_to_be_ready mgr cs"
    by (simp add: ensure_running_def wait_to_be_ready_def cv_wait_def Let_def
        split: wait_result.splits)
  have 2: "get_state mgr' = running" if "wait_to_be_ready mgr cs = Returned mgr' rest" for mgr' rest
    using that wait_for_state_returned [of mgr running cs mgr' rest]
    by (simp add: wait_to_be_ready_eq)
  show ?thesis using 1 2
    by (auto simp: ensure_running_def Let_def split: wait_result.splits)
qed

text \<open>
  An instance: on a running manager nothing is logged and nothing awaited; on a stopped one
  the call logs and goes to sleep, is woken by the broadcast of \<open>interface_init\<close> and goes
  back to sleep, is woken by the broadcast of \<open>running\<close>, and returns at its next step.
\<close>

theorem ensure_running_wraps_wait_to_be_ready_witness:
  "get_state (set_state (IOManager_initial 0 :: nat IOManager) running) = running \<and>
   ensure_running (set_state (IOManager_initial 0 :: nat IOManager) running)
       [Set_state_and_notify stopping] =
     ([], Returned (set_state (IOManager_initial 0) running) [Set_state_and_notify stopping]) \<and>
   get_state (IOManager_initial 0 :: nat IOManager) \<noteq> running \<and>
   ensure_running (IOManager_initial 0 :: nat IOManager)
       [Waiter_runs, Set_state_and_notify interface_init, Waiter_runs, Waiter_runs,
        Set_state_and_notify running, Waiter_runs, Set_state_and_notify stopping] =
     ([''IOManager is not running, will wait for it to be ready'', ''IOManager is ready now''],
      Returned (set_state_and_notify (set_state_and_notify (IOManager_initial 0) interface_init)
          running)
        [Set_state_and_notify stopping])"
proof -
  let ?m = "IOManager_initial 0 :: nat IOManager"
  let ?cs = "[Waiter_runs, Set_state_and_notify interface_init, Waiter_runs, Waiter_runs,
        Set_state_and_notify running, Waiter_runs, Set_state_and_notify stopping]"
  have st: "get_state ?m = stopped"
    by (simp add: get_state_def IOManager_initial_def)
  have w: "wait_to_be_ready ?m ?cs =
      Returned (set_state_and_notify (set_state_and_notify ?m interface_init) running)
        [Set_state_and_notify stopping]"
    using st by (simp add: wait_to_be_ready_def cv_wait_def wakes_simps get_state_set_state)
  have a: "ensure_running (set_state ?m running) [Set_state_and_notify stopping] =
      ([], Returned (set_state ?m running) [Set_state_and_notify stopping])"
    using ensure_running_wraps_wait_to_be_ready
      [of "set_state ?m running" "[Set_state_and_notify stopping]"]
    by (simp add: get_state_set_state)
  have b: "snd (ensure_running ?m ?cs) = wait_to_be_ready ?m ?cs"
    and c: "fst (ensure_running ?m ?cs) =
      [''IOManager is not running, will wait for it to be ready'', ''IOManager is ready now'']"
    using ensure_running_wraps_wait_to_be_ready [of ?m ?cs] st w by simp_all
  have "ensure_running ?m ?cs = (fst (ensure_running ?m ?cs), snd (ensure_running ?m ?cs))"
    by simp
  then show ?thesis using a b c w st by (simp add: get_state_set_state)
qed

subsection \<open>Registration of message modules\<close>

lemma count_less: "(c < max_msg_modules) = (unat c < 64)" for c :: "32 word"
  by (simp add: max_msg_modules_def word_less_nat_alt)

lemma unat_count_Suc: "unat c < 64 \<Longrightarrow> unat (c + 1) = Suc (unat c)" for c :: "32 word"
  using unat_add_lem [of c 1] by simp

lemma register_free:
  assumes "unat (m_msg_handlers_count mgr) < 64"
  shows "register_msg_module mgr h =
           (Inr (m_msg_handlers_count mgr),
            mgr\<lparr>m_msg_handlers := (m_msg_handlers mgr)[unat (m_msg_handlers_count mgr) := Some h],
                m_msg_handlers_count := m_msg_handlers_count mgr + 1\<rparr>)"
  using assms by (simp add: register_msg_module_def count_less)

lemma register_full:
  assumes "\<not> unat (m_msg_handlers_count mgr) < 64"
  shows "register_msg_module mgr h = (Inl Msg_modules_exhausted, mgr)"
  using assms by (simp add: register_msg_module_def count_less)

lemma register_all_gen:
  assumes "length (m_msg_handlers mgr) = 64" "unat (m_msg_handlers_count mgr) = c" "c \<le> 64"
    and "register_all mgr hs = (rs, mgr')"
  shows "length rs = length hs \<and>
         (\<forall>i<length hs. case rs ! i of Inr mid \<Rightarrow> unat mid = c + i \<and> c + i < 64 | Inl e \<Rightarrow> 64 \<le> c + i) \<and>
         length (m_msg_handlers mgr') = 64 \<and>
         unat (m_msg_handlers_count mgr') = min (c + length hs) 64 \<and>
         (\<forall>k<64. m_msg_handlers mgr' ! k =
            (if c \<le> k \<and> k < c + length hs then Some (hs ! (k - c)) else m_msg_handlers mgr ! k)) \<and>
         m_state mgr' = m_state mgr \<and> m_cv mgr' = m_cv mgr \<and>
         m_internal_msg_module_id mgr' = m_internal_msg_module_id mgr"
  using assms
proof (induction hs arbitrary: mgr c rs mgr')
  case Nil
  then show ?case by auto
next
  case (Cons h hs)
  show ?case
  proof (cases "c < 64")
    case True
    let ?m1 = "mgr\<lparr>m_msg_handlers := (m_msg_handlers mgr)[c := Some h],
                   m_msg_handlers_count := m_msg_handlers_count mgr + 1\<rparr>"
    have r: "register_msg_module mgr h = (Inr (m_msg_handlers_count mgr), ?m1)"
      using register_free [of mgr h] True Cons.prems(2) by simp
    obtain rs' where rs': "register_all ?m1 hs = (rs', mgr')" "rs = Inr (m_msg_handlers_count mgr) # rs'"
      using Cons.prems(4) r by (auto split: prod.splits)
    have c1: "unat (m_msg_handlers_count ?m1) = Suc c"
      using unat_count_Suc [of "m_msg_handlers_count mgr"] True Cons.prems(2) by simp
    have IH: "length rs' = length hs \<and>
         (\<forall>i<length hs. case rs' ! i of Inr mid \<Rightarrow> unat mid = Suc c + i \<and> Suc c + i < 64 | Inl e \<Rightarrow> 64 \<le> Suc c + i) \<and>
         length (m_msg_handlers mgr') = 64 \<and>
         unat (m_msg_handlers_count mgr') = min (Suc c + length hs) 64 \<and>
         (\<forall>k<64. m_msg_handlers mgr' ! k =
            (if Suc c \<le> k \<and> k < Suc c + length hs then Some (hs ! (k - Suc c)) else m_msg_handlers ?m1 ! k)) \<and>
         m_state mgr' = m_state ?m1 \<and> m_cv mgr' = m_cv ?m1 \<and>
         m_internal_msg_module_id mgr' = m_internal_msg_module_id ?m1"
      using Cons.IH [of ?m1 "Suc c" rs' mgr'] Cons.prems(1) c1 True rs'(1) by simp
    have res: "\<forall>i<length (h # hs). case rs ! i of Inr mid \<Rightarrow> unat mid = c + i \<and> c + i < 64 | Inl e \<Rightarrow> 64 \<le> c + i"
    proof (intro allI impI)
      fix i assume \<open>i < length (h # hs)\<close>
      show "case rs ! i of Inr mid \<Rightarrow> unat mid = c + i \<and> c + i < 64 | Inl e \<Rightarrow> 64 \<le> c + i"
      proof (cases i)
        case 0
        then show ?thesis using rs'(2) True Cons.prems(2) by simp
      next
        case (Suc n)
        then have "n < length hs" using \<open>i < length (h # hs)\<close> by simp
        then have "case rs' ! n of Inr mid \<Rightarrow> unat mid = Suc c + n \<and> Suc c + n < 64 | Inl e \<Rightarrow> 64 \<le> Suc c + n"
          using IH by blast
        then show ?thesis using Suc rs'(2) by (simp split: sum.splits)
      qed
    qed
    have tab: "\<forall>k<64. m_msg_handlers mgr' ! k =
            (if c \<le> k \<and> k < c + length (h # hs) then Some ((h # hs) ! (k - c)) else m_msg_handlers mgr ! k)"
    proof (intro allI impI)
      fix k :: nat assume k: "k < 64"
      show "m_msg_handlers mgr' ! k =
            (if c \<le> k \<and> k < c + length (h # hs) then Some ((h # hs) ! (k - c)) else m_msg_handlers mgr ! k)"
      proof (cases "k = c")
        case True
        then show ?thesis using IH k Cons.prems(1) by simp
      next
        case False
        then show ?thesis using IH k Cons.prems(1) by (auto simp: nth_Cons' Suc_diff_le)
      qed
    qed
    show ?thesis using IH res tab rs'(2) by simp
  next
    case False
    then have c64: "c = 64" using Cons.prems(3) by simp
    have r: "register_msg_module mgr h = (Inl Msg_modules_exhausted, mgr)"
      using register_full [of mgr h] False Cons.prems(2) by simp
    obtain rs' where rs': "register_all mgr hs = (rs', mgr')" "rs = Inl Msg_modules_exhausted # rs'"
      using Cons.prems(4) r by (auto split: prod.splits)
    have IH: "length rs' = length hs \<and>
         (\<forall>i<length hs. case rs' ! i of Inr mid \<Rightarrow> unat mid = c + i \<and> c + i < 64 | Inl e \<Rightarrow> 64 \<le> c + i) \<and>
         length (m_msg_handlers mgr') = 64 \<and>
         unat (m_msg_handlers_count mgr') = min (c + length hs) 64 \<and>
         (\<forall>k<64. m_msg_handlers mgr' ! k =
            (if c \<le> k \<and> k < c + length hs then Some (hs ! (k - c)) else m_msg_handlers mgr ! k)) \<and>
         m_state mgr' = m_state mgr \<and> m_cv mgr' = m_cv mgr \<and>
         m_internal_msg_module_id mgr' = m_internal_msg_module_id mgr"
      using Cons.IH [of mgr c rs' mgr'] Cons.prems(1,2,3) rs'(1) by simp
    have res: "\<forall>i<length (h # hs). case rs ! i of Inr mid \<Rightarrow> unat mid = c + i \<and> c + i < 64 | Inl e \<Rightarrow> 64 \<le> c + i"
    proof (intro allI impI)
      fix i assume "i < length (h # hs)"
      show "case rs ! i of Inr mid \<Rightarrow> unat mid = c + i \<and> c + i < 64 | Inl e \<Rightarrow> 64 \<le> c + i"
      proof (cases i)
        case 0
        then show ?thesis using rs'(2) c64 by simp
      next
        case (Suc n)
        then have "n < length hs" using \<open>i < length (h # hs)\<close> by simp
        then have "case rs' ! n of Inr mid \<Rightarrow> unat mid = c + n \<and> c + n < 64 | Inl e \<Rightarrow> 64 \<le> c + n"
          using IH by blast
        then show ?thesis using Suc rs'(2) c64 by (simp split: sum.splits)
      qed
    qed
    show ?thesis using IH res rs'(2) c64 by simp
  qed
qed


lemma IOManager_initial_simps:
  "length (m_msg_handlers (IOManager_initial i0)) = 64"
  "unat (m_msg_handlers_count (IOManager_initial i0)) = 0"
  "m_state (IOManager_initial i0) = stopped"
  by (simp_all add: IOManager_initial_def max_msg_modules_def)

lemma unat_of_nat_64: "i < 64 \<Longrightarrow> unat (of_nat i :: 32 word) = i"
  by (simp add: unat_of_nat)

lemma of_nat_less_max: "i < 64 \<Longrightarrow> (of_nat i :: 32 word) < max_msg_modules"
  by (simp add: count_less unat_of_nat_64)

text \<open>
  C1. From the manager as it is initialised, for every sequence of registrations: the
  \<open>i\<close>-th one (counted from 0) succeeds exactly when \<open>i < 64\<close>, and then returns the id
  \<open>i\<close>, so the ids are distinct and in 0..63; every later one fails. After the whole
  sequence, failed registrations included, the id \<open>i\<close> still maps to the \<open>i\<close>-th handler;
  the table has 64 slots throughout; and a registration on a full table returns the
  manager unchanged.
\<close>

theorem register_msg_module_capacity:
  fixes hs :: "'h list"
  assumes "register_all (IOManager_initial i0) hs = (rs, mgr')"
  shows "length rs = length hs \<and>
         (\<forall>i<length hs. case rs ! i of Inr mid \<Rightarrow> unat mid = i \<and> i < 64 | Inl e \<Rightarrow> 64 \<le> i) \<and>
         distinct (take 64 rs) \<and>
         (\<forall>i<length hs. i < 64 \<longrightarrow> get_msg_module mgr' (of_nat i) = Inr (Some (hs ! i))) \<and>
         length (m_msg_handlers mgr') = 64 \<and>
         unat (m_msg_handlers_count mgr') = min (length hs) 64 \<and>
         (\<forall>m h. \<not> m_msg_handlers_count m < max_msg_modules \<longrightarrow>
            register_msg_module (m :: 'h IOManager) h = (Inl Msg_modules_exhausted, m))"
proof -
  have g0: "length rs = length hs \<and>
         (\<forall>i<length hs. case rs ! i of Inr mid \<Rightarrow> unat mid = 0 + i \<and> 0 + i < 64 | Inl e \<Rightarrow> 64 \<le> 0 + i) \<and>
         length (m_msg_handlers mgr') = 64 \<and>
         unat (m_msg_handlers_count mgr') = min (0 + length hs) 64 \<and>
         (\<forall>k<64. m_msg_handlers mgr' ! k =
            (if 0 \<le> k \<and> k < 0 + length hs then Some (hs ! (k - 0))
             else m_msg_handlers (IOManager_initial i0 :: 'h IOManager) ! k)) \<and>
         m_state mgr' = m_state (IOManager_initial i0 :: 'h IOManager) \<and>
         m_cv mgr' = m_cv (IOManager_initial i0 :: 'h IOManager) \<and>
         m_internal_msg_module_id mgr' = m_internal_msg_module_id (IOManager_initial i0 :: 'h IOManager)"
    by (rule register_all_gen [OF IOManager_initial_simps(1) IOManager_initial_simps(2) _ assms]) simp
  have res: "\<And>i. i < length hs \<Longrightarrow> case rs ! i of Inr mid \<Rightarrow> unat mid = i \<and> i < 64 | Inl e \<Rightarrow> 64 \<le> i"
    using g0 by (simp cong: sum.case_cong)
  have len: "length rs = length hs" using g0 by simp
  have tab: "\<And>k. k < 64 \<Longrightarrow> k < length hs \<Longrightarrow> m_msg_handlers mgr' ! k = Some (hs ! k)"
    using g0 by simp
  have rest: "length (m_msg_handlers mgr') = 64" "unat (m_msg_handlers_count mgr') = min (length hs) 64"
    using g0 by simp_all
  have "distinct (take 64 rs)"
  proof (unfold distinct_conv_nth, intro allI impI)
    fix i j assume i: "i < length (take 64 rs)" and j: "j < length (take 64 rs)" and ne: "i \<noteq> j"
    have i': "i < length hs" "i < 64" and j': "j < length hs" "j < 64"
      using i j len by simp_all
    from res [OF i'(1)] res [OF j'(1)] i' j' ne have "rs ! i \<noteq> rs ! j"
      by (auto split: sum.splits)
    then show "take 64 rs ! i \<noteq> take 64 rs ! j"
      using i j by simp
  qed
  moreover have "\<forall>i<length hs. i < 64 \<longrightarrow> get_msg_module mgr' (of_nat i) = Inr (Some (hs ! i))"
  proof (intro allI impI)
    fix i assume "i < length hs" "i < 64"
    then show "get_msg_module mgr' (of_nat i) = Inr (Some (hs ! i))"
      using tab [of i] by (simp add: get_msg_module_def of_nat_less_max unat_of_nat_64)
  qed
  moreover have "\<forall>m h. \<not> m_msg_handlers_count m < max_msg_modules \<longrightarrow>
            register_msg_module (m :: 'h IOManager) h = (Inl Msg_modules_exhausted, m)"
    by (simp add: register_msg_module_def)
  ultimately show ?thesis using res len rest by blast
qed

text \<open>
  An instance: 65 registrations, of the handlers 1 to 65. The 64th returns the id 63, the
  65th fails, and the id 63 maps to the handler 64 afterwards.
\<close>

theorem register_msg_module_capacity_witness:
  "fst (register_all (IOManager_initial 0 :: nat IOManager) (map Suc [0..<65])) ! 63 = Inr 63 \<and>
   fst (register_all (IOManager_initial 0 :: nat IOManager) (map Suc [0..<65])) ! 64 =
     Inl Msg_modules_exhausted \<and>
   get_msg_module (snd (register_all (IOManager_initial 0 :: nat IOManager) (map Suc [0..<65]))) 63 =
     Inr (Some 64) \<and>
   length (m_msg_handlers (snd (register_all (IOManager_initial 0 :: nat IOManager)
     (map Suc [0..<65])))) = 64"
proof -
  let ?hs = "map Suc [0..<65]"
  let ?run = "register_all (IOManager_initial 0 :: nat IOManager) ?hs"
  note T = register_msg_module_capacity [of 0 ?hs "fst ?run" "snd ?run", OF prod.collapse [symmetric]]
  have res: "case fst ?run ! i of Inr mid \<Rightarrow> unat mid = i \<and> i < 64 | Inl e \<Rightarrow> 64 \<le> i"
    if "i < 65" for i
    using T [THEN conjunct2, THEN conjunct1, rule_format, of i] that by simp
  have "\<exists>mid. fst ?run ! 63 = Inr mid \<and> unat mid = 63"
    using res [of 63] by (cases "fst ?run ! 63") simp_all
  then obtain mid where mid: "fst ?run ! 63 = Inr mid" "unat mid = 63"
    by blast
  have "mid = 63"
    using mid(2) by (simp add: word_unat_eq_iff)
  then have a: "fst ?run ! 63 = Inr 63"
    using mid(1) by simp
  have b: "fst ?run ! 64 = Inl Msg_modules_exhausted"
  proof (cases "fst ?run ! 64")
    case (Inl e)
    then show ?thesis by (cases e) simp
  next
    case (Inr m)
    then show ?thesis using res [of 64] by simp
  qed
  have c: "get_msg_module (snd ?run) (of_nat 63) = Inr (Some (?hs ! 63))"
    using T [THEN conjunct2, THEN conjunct2, THEN conjunct2, THEN conjunct1, rule_format, of 63]
    by simp
  have d: "length (m_msg_handlers (snd ?run)) = 64"
    using T by blast
  have "?hs ! 63 = 64"
    by (simp del: upt_Suc)
  then show ?thesis using a b c d by simp
qed

subsection \<open>run_on for a selector, and the module its messages go to\<close>





subsection \<open>The states of the manager\<close>

















end
